theory Spec2Isabelle
  imports Main "HOL-Library.Multiset" "HOL-Library.Char_ord" "HOL-Library.List_Lexorder"
begin

section \<open>Data model\<close>

text \<open>
  The task service of \<^verbatim>\<open>src/modules/tasks\<close>: a table of tasks behind an ORM, a job
  queue, the service \<^verbatim>\<open>TasksService\<close> and the controller \<^verbatim>\<open>TasksController\<close>.
  Identifiers are the strings the code passes around; timestamps are integers
  (milliseconds).
\<close>

datatype TaskStatus = PENDING | IN_PROGRESS | COMPLETED

datatype TaskPriority = LOW | MEDIUM | HIGH

text \<open>
  Modelled from the spec: the entity \<^verbatim>\<open>entities/task.entity\<close> (section 3 of the
  specification lists its columns: id, title, optional description, status, priority,
  optional dueDate, createdAt, owning user).
\<close>

record Task =
  t_id :: string
  t_title :: string
  t_description :: "string option"
  t_status :: TaskStatus
  t_priority :: TaskPriority
  t_dueDate :: "int option"
  t_createdAt :: int
  t_userId :: string

text \<open>
  Modelled from the spec: \<^verbatim>\<open>dto/create-task.dto\<close>, the fields a task is created
  from; the status is optional and defaults to PENDING.
\<close>

record CreateTaskDto =
  c_title :: string
  c_description :: "string option"
  c_status :: "TaskStatus option"
  c_priority :: TaskPriority
  c_dueDate :: "int option"
  c_userId :: string

text \<open>
  \<^verbatim>\<open>dto/update-task.dto\<close>: the five properties that the first revision of
  \<^verbatim>\<open>update\<close> reads one by one (tasks.service.ts lines 96-100). \<open>None\<close> is a
  property that the request body does not carry.
\<close>

record UpdateTaskDto =
  u_title :: "string option"
  u_description :: "string option"
  u_status :: "TaskStatus option"
  u_priority :: "TaskPriority option"
  u_dueDate :: "int option"

text \<open>\<^verbatim>\<open>TaskFilterDto\<close> (dto/task-filter.dto): every field optional.\<close>

record TaskFilterDto =
  f_status :: "TaskStatus option"
  f_priority :: "TaskPriority option"
  f_search :: "string option"
  f_fromDate :: "string option"
  f_toDate :: "string option"
  f_userId :: "string option"

text \<open>A job of the queue \<^verbatim>\<open>task-processing\<close>: its name and its payload.\<close>

record Job =
  j_name :: string
  j_taskId :: string
  j_status :: TaskStatus

text \<open>
  What a caller can catch: an \<^verbatim>\<open>HttpException\<close> (message, status code) thrown by the
  code itself, or a plain \<^verbatim>\<open>Error\<close> thrown by the ORM or the queue client.
\<close>

datatype error = HttpException string nat | Error string

definition NotFoundException :: "string \<Rightarrow> error" where
  "NotFoundException msg = HttpException msg 404"

definition BAD_REQUEST :: nat where
  "BAD_REQUEST = 400"

definition INTERNAL_SERVER_ERROR :: nat where
  "INTERNAL_SERVER_ERROR = 500"

definition OK :: nat where
  "OK = 200"

fun message :: "error \<Rightarrow> string" where
  "message (HttpException msg code) = msg"
| "message (Error msg) = msg"

section \<open>The world outside the service\<close>

text \<open>
  The committed rows of the table, in the order in which the database scans them, and
  the jobs that the queue has accepted, oldest first.
\<close>

record World =
  table :: "Task list"
  jobs :: "Job list"

text \<open>The awaited calls on the query runner, the entity manager and the repository.\<close>

datatype DbCall = Connect | StartTransaction | Save | FindOne | Find | Update | Delete | Commit

text \<open>
  What the collaborators decide during one call of the service: the identifier and the
  creation time that the database gives a new row, which database calls are rejected
  (with the message of the error), which calls of \<^verbatim>\<open>taskQueue.add\<close> are rejected
  (numbered from 0 within the call of the service), how the database reads a date
  string, and its \<^verbatim>\<open>ILIKE\<close> operator (text first, pattern second).
\<close>

record Env =
  genId :: string
  now :: int
  dbFails :: "DbCall \<Rightarrow> string option"
  queueFails :: "nat \<Rightarrow> string option"
  timestampOf :: "string \<Rightarrow> int option"
  ilike :: "string \<Rightarrow> string \<Rightarrow> bool"

section \<open>Store and queue primitives\<close>

text \<open>\<^verbatim>\<open>taskQueue.add(name, data)\<close>: the job is appended, or the call throws.\<close>

definition queue_add :: "Env \<Rightarrow> nat \<Rightarrow> Job \<Rightarrow> Job list \<Rightarrow> error + Job list" where
  "queue_add env k job js =
     (case queueFails env k of
        Some msg \<Rightarrow> Inl (Error msg)
      | None \<Rightarrow> Inr (js @ [job]))"

text \<open>
  \<^verbatim>\<open>manager.save\<close> of an entity without an identifier: an INSERT. The database
  generates the identifier (a primary key: a value already present is rejected) and
  the creation time, and fills in the default status.
\<close>

definition save_new :: "Env \<Rightarrow> CreateTaskDto \<Rightarrow> Task list \<Rightarrow> error + Task \<times> Task list" where
  "save_new env dto rows =
     (case dbFails env Save of
        Some msg \<Rightarrow> Inl (Error msg)
      | None \<Rightarrow>
          if genId env \<in> set (map t_id rows)
          then Inl (Error ''duplicate key value violates unique constraint'')
          else
            let savedTask =
              \<lparr>t_id = genId env, t_title = c_title dto, t_description = c_description dto,
               t_status = (case c_status dto of None \<Rightarrow> PENDING | Some s \<Rightarrow> s),
               t_priority = c_priority dto, t_dueDate = c_dueDate dto,
               t_createdAt = now env, t_userId = c_userId dto\<rparr>
            in Inr (savedTask, rows @ [savedTask]))"

text \<open>\<^verbatim>\<open>manager.save\<close> of a loaded entity: an UPDATE of the row with its identifier.\<close>

definition save_existing :: "Env \<Rightarrow> Task \<Rightarrow> Task list \<Rightarrow> error + Task \<times> Task list" where
  "save_existing env task rows =
     (case dbFails env Save of
        Some msg \<Rightarrow> Inl (Error msg)
      | None \<Rightarrow> Inr (task, map (\<lambda>r. if t_id r = t_id task then task else r) rows))"

text \<open>\<^verbatim>\<open>findOne({ where: { id } })\<close> of the manager or the repository.\<close>

definition db_findOne :: "Env \<Rightarrow> string \<Rightarrow> Task list \<Rightarrow> error + Task option" where
  "db_findOne env ident rows =
     (case dbFails env FindOne of
        Some msg \<Rightarrow> Inl (Error msg)
      | None \<Rightarrow> Inr (find (\<lambda>r. t_id r = ident) rows))"

text \<open>
  \<^verbatim>\<open>skip\<close> and \<^verbatim>\<open>take\<close> of a query that joins a relation, as both queries of
  \<^verbatim>\<open>findAll\<close> do (\<^verbatim>\<open>leftJoinAndSelect('task.user', ...)\<close>, \<^verbatim>\<open>relations: ['user']\<close>).
  The ORM loads such a page in two steps. The first step selects the distinct primary
  keys of the matching rows in ascending order (identifiers compare as strings, byte by
  byte) and cuts them by OFFSET and LIMIT. The database rejects a negative number and a
  number beyond its 64-bit range; a number that is 0 is left out of the statement, so a
  \<^verbatim>\<open>take\<close> of 0 is no limit.
\<close>

definition MAX_BIGINT :: int where
  "MAX_BIGINT = 9223372036854775807"

definition page_of_ids :: "int \<Rightarrow> int \<Rightarrow> string list \<Rightarrow> error + string list" where
  "page_of_ids skip tk ids =
     (if skip < 0 then Inl (Error ''OFFSET must not be negative'')
      else if tk < 0 then Inl (Error ''LIMIT must not be negative'')
      else if MAX_BIGINT < skip \<or> MAX_BIGINT < tk then Inl (Error ''bigint out of range'')
      else
        let ordered = drop (nat skip) (sort (remdups ids))
        in Inr (if tk = 0 then ordered else take (nat tk) ordered))"

text \<open>
  The second step loads the matching rows whose key is on the page; it has no order
  clause, so the rows come in the order of the table. When \<^verbatim>\<open>skip\<close> and
  \<^verbatim>\<open>take\<close> are both 0 the ORM does not paginate at all.
\<close>

definition skip_take :: "int \<Rightarrow> int \<Rightarrow> Task list \<Rightarrow> error + Task list" where
  "skip_take skip tk matching =
     (if skip = 0 \<and> tk = 0 then Inr matching
      else
        (case page_of_ids skip tk (map t_id matching) of
           Inl err \<Rightarrow> Inl err
         | Inr ids \<Rightarrow> Inr (filter (\<lambda>r. t_id r \<in> set ids) matching)))"

text \<open>
  The query-runner frame that \<^verbatim>\<open>create\<close>, \<^verbatim>\<open>update\<close>, \<^verbatim>\<open>bulkUpdateStatus\<close> and
  \<^verbatim>\<open>bulkDelete\<close> repeat: connect, start a transaction, run the body of the
  \<^verbatim>\<open>try\<close> on the rows as the transaction sees them, commit inside the \<^verbatim>\<open>try\<close>;
  on any throw roll back (the table keeps its committed rows) and rethrow. The queue is
  not part of the transaction: the jobs that it has accepted stay.
\<close>

definition transaction ::
  "Env \<Rightarrow> (Task list \<Rightarrow> Job list \<Rightarrow> (error + 'a) \<times> Task list \<times> Job list) \<Rightarrow> World
     \<Rightarrow> (error + 'a) \<times> World" where
  "transaction env body w =
     (case dbFails env Connect of
        Some msg \<Rightarrow> (Inl (Error msg), w)
      | None \<Rightarrow>
     (case dbFails env StartTransaction of
        Some msg \<Rightarrow> (Inl (Error msg), w)
      | None \<Rightarrow>
     (case body (table w) (jobs w) of
        (Inl err, rows, js) \<Rightarrow> (Inl err, w\<lparr>jobs := js\<rparr>)
      | (Inr res, rows, js) \<Rightarrow>
          (case dbFails env Commit of
             Some msg \<Rightarrow> (Inl (Error msg), w\<lparr>jobs := js\<rparr>)
           | None \<Rightarrow> (Inr res, \<lparr>table = rows, jobs = js\<rparr>)))))"

section \<open>TasksService\<close>

definition status_update_job :: "string \<Rightarrow> TaskStatus \<Rightarrow> Job" where
  "status_update_job ident st = \<lparr>j_name = ''task-status-update'', j_taskId = ident, j_status = st\<rparr>"

text \<open>\<^verbatim>\<open>create\<close> (tasks.service.ts lines 154-176, the same text as lines 20-42).\<close>

definition create :: "Env \<Rightarrow> CreateTaskDto \<Rightarrow> World \<Rightarrow> (error + Task) \<times> World" where
  "create env createTaskDto w =
     transaction env (\<lambda>rows js.
       case save_new env createTaskDto rows of
         Inl err \<Rightarrow> (Inl err, rows, js)
       | Inr (savedTask, rows') \<Rightarrow>
           (case queue_add env 0 (status_update_job (t_id savedTask) (t_status savedTask)) js of
              Inl err \<Rightarrow> (Inl err, rows', js)
            | Inr js' \<Rightarrow> (Inr savedTask, rows', js'))) w"

text \<open>
  An optional string property in a condition \<^verbatim>\<open>if (x)\<close>: missing and empty are
  both falsy.
\<close>

definition truthy :: "string option \<Rightarrow> string option" where
  "truthy v = (case v of None \<Rightarrow> None | Some s \<Rightarrow> if s = [] then None else Some s)"

text \<open>
  The conditions of the query of \<^verbatim>\<open>findAll\<close> (lines 195-222): the owner, then
  one \<^verbatim>\<open>andWhere\<close> for each filter field that is truthy. A comparison with a
  missing description is not true.
\<close>

definition matches :: "Env \<Rightarrow> string \<Rightarrow> TaskFilterDto \<Rightarrow> Task \<Rightarrow> bool" where
  "matches env userId flt r =
     (t_userId r = userId
      \<and> (case f_status flt of None \<Rightarrow> True | Some s \<Rightarrow> t_status r = s)
      \<and> (case f_priority flt of None \<Rightarrow> True | Some p \<Rightarrow> t_priority r = p)
      \<and> (case truthy (f_fromDate flt) of
            None \<Rightarrow> True
          | Some fromDate \<Rightarrow>
              (case timestampOf env fromDate of None \<Rightarrow> False | Some d \<Rightarrow> d \<le> t_createdAt r))
      \<and> (case truthy (f_toDate flt) of
            None \<Rightarrow> True
          | Some toDate \<Rightarrow>
              (case timestampOf env toDate of None \<Rightarrow> False | Some d \<Rightarrow> t_createdAt r \<le> d))
      \<and> (case truthy (f_search flt) of
            None \<Rightarrow> True
          | Some word \<Rightarrow>
              (let search = ''%'' @ word @ ''%''
               in ilike env (t_title r) search
                  \<or> (case t_description r of None \<Rightarrow> False | Some d \<Rightarrow> ilike env d search))))"

text \<open>A date parameter that the database cannot read makes the query fail.\<close>

definition bad_date :: "Env \<Rightarrow> string option \<Rightarrow> bool" where
  "bad_date env v = (case truthy v of None \<Rightarrow> False | Some d \<Rightarrow> timestampOf env d = None)"

text \<open>
  \<^verbatim>\<open>findAll\<close> with a filter (lines 178-225). The query has no order clause of its
  own.
\<close>

definition findAll ::
  "Env \<Rightarrow> string \<Rightarrow> int \<Rightarrow> int \<Rightarrow> TaskFilterDto \<Rightarrow> World \<Rightarrow> error + Task list" where
  "findAll env userId currentPage pageSize flt w =
     (case dbFails env Find of
        Some msg \<Rightarrow> Inl (Error msg)
      | None \<Rightarrow>
          if bad_date env (f_fromDate flt) \<or> bad_date env (f_toDate flt)
          then Inl (Error ''invalid input syntax for type timestamp'')
          else skip_take ((currentPage - 1) * pageSize) pageSize
                 (filter (matches env userId flt) (table w)))"

text \<open>
  \<^verbatim>\<open>findAll\<close> with the status and the priority as strings (lines 44-61), which the
  controller calls with \<^verbatim>\<open>''\<close> for a missing query parameter: an empty string is
  no condition. The strings are those of the enumerations.
\<close>

definition status_name :: "TaskStatus \<Rightarrow> string" where
  "status_name s = (case s of PENDING \<Rightarrow> ''PENDING'' | IN_PROGRESS \<Rightarrow> ''IN_PROGRESS''
                    | COMPLETED \<Rightarrow> ''COMPLETED'')"

definition priority_name :: "TaskPriority \<Rightarrow> string" where
  "priority_name p = (case p of LOW \<Rightarrow> ''LOW'' | MEDIUM \<Rightarrow> ''MEDIUM'' | HIGH \<Rightarrow> ''HIGH'')"

definition whereClause :: "string \<Rightarrow> string \<Rightarrow> string \<Rightarrow> Task \<Rightarrow> bool" where
  "whereClause userId status priority r =
     (t_userId r = userId
      \<and> (if status \<noteq> [] then status_name (t_status r) = status else True)
      \<and> (if priority \<noteq> [] then priority_name (t_priority r) = priority else True))"

definition findAll_by_strings ::
  "Env \<Rightarrow> string \<Rightarrow> int \<Rightarrow> int \<Rightarrow> string \<Rightarrow> string \<Rightarrow> World \<Rightarrow> error + Task list" where
  "findAll_by_strings env userId currentPage pageSize status priority w =
     (case dbFails env Find of
        Some msg \<Rightarrow> Inl (Error msg)
      | None \<Rightarrow>
          skip_take ((currentPage - 1) * pageSize) pageSize
            (filter (whereClause userId status priority) (table w)))"

text \<open>\<^verbatim>\<open>findOne\<close> (lines 244-250).\<close>

definition findOne :: "Env \<Rightarrow> string \<Rightarrow> World \<Rightarrow> error + Task" where
  "findOne env ident w =
     (case db_findOne env ident (table w) of
        Inl err \<Rightarrow> Inl err
      | Inr None \<Rightarrow> Inl (NotFoundException ''Task not found'')
      | Inr (Some task) \<Rightarrow> Inr task)"

text \<open>
  \<^verbatim>\<open>Object.assign(task, updateTaskDto)\<close>: every property that the input carries
  overwrites the property of the task.
\<close>

definition Object_assign :: "Task \<Rightarrow> UpdateTaskDto \<Rightarrow> Task" where
  "Object_assign task dto =
     task\<lparr>t_title := (case u_title dto of None \<Rightarrow> t_title task | Some v \<Rightarrow> v),
          t_description := (case u_description dto of None \<Rightarrow> t_description task | Some v \<Rightarrow> Some v),
          t_status := (case u_status dto of None \<Rightarrow> t_status task | Some v \<Rightarrow> v),
          t_priority := (case u_priority dto of None \<Rightarrow> t_priority task | Some v \<Rightarrow> v),
          t_dueDate := (case u_dueDate dto of None \<Rightarrow> t_dueDate task | Some v \<Rightarrow> Some v)\<rparr>"

text \<open>\<^verbatim>\<open>update\<close> (lines 252-286).\<close>

definition update :: "Env \<Rightarrow> string \<Rightarrow> UpdateTaskDto \<Rightarrow> World \<Rightarrow> (error + Task) \<times> World" where
  "update env ident updateTaskDto w =
     transaction env (\<lambda>rows js.
       case db_findOne env ident rows of
         Inl err \<Rightarrow> (Inl err, rows, js)
       | Inr None \<Rightarrow> (Inl (NotFoundException ''Task not found''), rows, js)
       | Inr (Some task) \<Rightarrow>
           (let originalStatus = t_status task in
            case save_existing env (Object_assign task updateTaskDto) rows of
              Inl err \<Rightarrow> (Inl err, rows, js)
            | Inr (updatedTask, rows') \<Rightarrow>
                if originalStatus \<noteq> t_status updatedTask
                then (case queue_add env 0
                             (status_update_job (t_id updatedTask) (t_status updatedTask)) js of
                        Inl err \<Rightarrow> (Inl err, rows', js)
                      | Inr js' \<Rightarrow> (Inr updatedTask, rows', js'))
                else (Inr updatedTask, rows', js))) w"

text \<open>
  The loop of \<^verbatim>\<open>bulkUpdateStatus\<close> (lines 300-305): one awaited \<^verbatim>\<open>add\<close> for
  each task, in order; the first throw leaves the loop, and the jobs accepted before
  it stay in the queue.
\<close>

fun publish_all :: "Env \<Rightarrow> nat \<Rightarrow> Task list \<Rightarrow> Job list \<Rightarrow> (error + unit) \<times> Job list" where
  "publish_all env k [] js = (Inr (), js)"
| "publish_all env k (task # rest) js =
     (case queue_add env k (status_update_job (t_id task) (t_status task)) js of
        Inl err \<Rightarrow> (Inl err, js)
      | Inr js' \<Rightarrow> publish_all env (Suc k) rest js')"

text \<open>
  \<^verbatim>\<open>bulkUpdateStatus\<close> (lines 288-316): UPDATE of the rows whose identifier is
  among \<^verbatim>\<open>ids\<close>, then a query of those rows, then the loop.
\<close>

definition bulkUpdateStatus ::
  "Env \<Rightarrow> string list \<Rightarrow> TaskStatus \<Rightarrow> World \<Rightarrow> (error + Task list) \<times> World" where
  "bulkUpdateStatus env ids status w =
     transaction env (\<lambda>rows js.
       case dbFails env Update of
         Some msg \<Rightarrow> (Inl (Error msg), rows, js)
       | None \<Rightarrow>
          (let rows' = map (\<lambda>r. if t_id r \<in> set ids then r\<lparr>t_status := status\<rparr> else r) rows in
           case dbFails env Find of
             Some msg \<Rightarrow> (Inl (Error msg), rows', js)
           | None \<Rightarrow>
               (let updatedTasks = filter (\<lambda>r. t_id r \<in> set ids) rows' in
                case publish_all env 0 updatedTasks js of
                  (Inl err, js') \<Rightarrow> (Inl err, rows', js')
                | (Inr u, js') \<Rightarrow> (Inr updatedTasks, rows', js')))) w"

text \<open>\<^verbatim>\<open>remove\<close> (lines 318-320): one DELETE by identifier, outside any transaction.\<close>

definition remove :: "Env \<Rightarrow> string \<Rightarrow> World \<Rightarrow> (error + unit) \<times> World" where
  "remove env ident w =
     (case dbFails env Delete of
        Some msg \<Rightarrow> (Inl (Error msg), w)
      | None \<Rightarrow> (Inr (), w\<lparr>table := filter (\<lambda>r. t_id r \<noteq> ident) (table w)\<rparr>))"

text \<open>\<^verbatim>\<open>bulkDelete\<close> (lines 322-336).\<close>

definition bulkDelete :: "Env \<Rightarrow> string list \<Rightarrow> World \<Rightarrow> (error + unit) \<times> World" where
  "bulkDelete env ids w =
     transaction env (\<lambda>rows js.
       case dbFails env Delete of
         Some msg \<Rightarrow> (Inl (Error msg), rows, js)
       | None \<Rightarrow> (Inr (), filter (\<lambda>r. t_id r \<notin> set ids) rows, js)) w"

section \<open>The first revision of the service\<close>

text \<open>
  The file also holds the revision that the transactional one replaces (lines 1-133).
  Its \<^verbatim>\<open>update\<close> (lines 88-113) copies a property only when it is truthy, saves
  outside any transaction, and does not await \<^verbatim>\<open>add\<close>: a rejected job is an
  unhandled rejection, and the task is returned all the same.
\<close>

definition assign_truthy :: "Task \<Rightarrow> UpdateTaskDto \<Rightarrow> Task" where
  "assign_truthy task dto =
     task\<lparr>t_title := (case truthy (u_title dto) of None \<Rightarrow> t_title task | Some v \<Rightarrow> v),
          t_description :=
            (case truthy (u_description dto) of None \<Rightarrow> t_description task | Some v \<Rightarrow> Some v),
          t_status := (case u_status dto of None \<Rightarrow> t_status task | Some v \<Rightarrow> v),
          t_priority := (case u_priority dto of None \<Rightarrow> t_priority task | Some v \<Rightarrow> v),
          t_dueDate := (case u_dueDate dto of None \<Rightarrow> t_dueDate task | Some v \<Rightarrow> Some v)\<rparr>"

definition update_first_revision ::
  "Env \<Rightarrow> string \<Rightarrow> UpdateTaskDto \<Rightarrow> World \<Rightarrow> (error + Task) \<times> World" where
  "update_first_revision env ident updateTaskDto w =
     (case findOne env ident w of
        Inl err \<Rightarrow> (Inl err, w)
      | Inr task \<Rightarrow>
          (let originalStatus = t_status task in
           case save_existing env (assign_truthy task updateTaskDto) (table w) of
             Inl err \<Rightarrow> (Inl err, w)
           | Inr (updatedTask, rows') \<Rightarrow>
               if originalStatus \<noteq> t_status updatedTask
               then (case queue_add env 0
                            (status_update_job (t_id updatedTask) (t_status updatedTask)) (jobs w) of
                       Inl err \<Rightarrow> (Inr updatedTask, w\<lparr>table := rows'\<rparr>)
                     | Inr js' \<Rightarrow> (Inr updatedTask, \<lparr>table = rows', jobs = js'\<rparr>))
               else (Inr updatedTask, w\<lparr>table := rows'\<rparr>)))"

text \<open>Its \<^verbatim>\<open>remove\<close> (lines 115-119) looks the task up first.\<close>

definition remove_first_revision :: "Env \<Rightarrow> string \<Rightarrow> World \<Rightarrow> (error + unit) \<times> World" where
  "remove_first_revision env ident w =
     (case findOne env ident w of
        Inl err \<Rightarrow> (Inl err, w)
      | Inr task \<Rightarrow>
          (case dbFails env Delete of
             Some msg \<Rightarrow> (Inl (Error msg), w)
           | None \<Rightarrow> (Inr (), w\<lparr>table := filter (\<lambda>r. t_id r \<noteq> t_id task) (table w)\<rparr>)))"

section \<open>TasksController\<close>

text \<open>
  A promise that nobody awaits: whatever it settles to, the object is truthy.
\<close>

datatype 'a promise = Promise "error + 'a"

fun falsy :: "'a promise \<Rightarrow> bool" where
  "falsy (Promise outcome) = False"

record Confirmation =
  k_statusCode :: nat
  k_message :: string

text \<open>
  \<^verbatim>\<open>TasksController.remove\<close> (controller lines 106-118): \<^verbatim>\<open>findOne\<close> is called
  without \<^verbatim>\<open>await\<close>, so \<^verbatim>\<open>task\<close> is the promise.
\<close>

definition TasksController_remove ::
  "Env \<Rightarrow> string \<Rightarrow> World \<Rightarrow> (error + Confirmation) \<times> World" where
  "TasksController_remove env ident w =
     (let task = Promise (findOne env ident w) in
      if falsy task then (Inl (NotFoundException ''Task not found''), w)
      else
        (case remove env ident w of
           (Inl err, w') \<Rightarrow> (Inl err, w')
         | (Inr u, w') \<Rightarrow>
             (Inr \<lparr>k_statusCode = OK, k_message = ''Task successfully deleted''\<rparr>, w')))"

record BatchRequest =
  b_tasks :: "string list"
  b_action :: string

record BatchResponse =
  r_success :: bool
  r_affected :: nat
  r_taskIds :: "string list"

text \<open>What \<^verbatim>\<open>result\<close> holds after the \<^verbatim>\<open>switch\<close>: an array of tasks or nothing.\<close>

datatype batch_result = TaskArray "Task list" | Undefined

text \<open>
  The \<^verbatim>\<open>switch\<close> of \<^verbatim>\<open>batchProcess\<close> (controller lines 127-136), inside the
  \<^verbatim>\<open>try\<close>.
\<close>

definition batch_switch :: "Env \<Rightarrow> string list \<Rightarrow> string \<Rightarrow> World \<Rightarrow> (error + batch_result) \<times> World" where
  "batch_switch env taskIds act w =
     (if act = ''complete'' then
        (case bulkUpdateStatus env taskIds COMPLETED w of
           (Inl err, w') \<Rightarrow> (Inl err, w')
         | (Inr updatedTasks, w') \<Rightarrow> (Inr (TaskArray updatedTasks), w'))
      else if act = ''delete'' then
        (case bulkDelete env taskIds w of
           (Inl err, w') \<Rightarrow> (Inl err, w')
         | (Inr u, w') \<Rightarrow> (Inr Undefined, w'))
      else (Inl (HttpException (''Unknown action: '' @ act) BAD_REQUEST), w))"

text \<open>
  \<^verbatim>\<open>TasksController.batchProcess\<close> (controller lines 120-149): the \<^verbatim>\<open>catch\<close>
  turns whatever the \<^verbatim>\<open>try\<close> throws into an exception with the same message
  and the status INTERNAL_SERVER_ERROR.
\<close>

definition TasksController_batchProcess ::
  "Env \<Rightarrow> BatchRequest \<Rightarrow> World \<Rightarrow> (error + BatchResponse) \<times> World" where
  "TasksController_batchProcess env operations w =
     (let taskIds = b_tasks operations; act = b_action operations in
      case batch_switch env taskIds act w of
        (Inr result, w') \<Rightarrow>
          (Inr \<lparr>r_success = True,
                r_affected = (case result of TaskArray ts \<Rightarrow> length ts | Undefined \<Rightarrow> 0),
                r_taskIds = taskIds\<rparr>, w')
      | (Inl err, w') \<Rightarrow> (Inl (HttpException (message err) INTERNAL_SERVER_ERROR), w'))"

section \<open>Reading a listing page by page\<close>


section \<open>Sample data\<close>

text \<open>Tasks, tables and environments with and without faults, for the examples below.\<close>

definition task_a :: Task where
  "task_a = \<lparr>t_id = ''a'', t_title = ''Write report'', t_description = None,
             t_status = PENDING, t_priority = HIGH, t_dueDate = None,
             t_createdAt = 10, t_userId = ''u1''\<rparr>"

definition task_b :: Task where
  "task_b = \<lparr>t_id = ''b'', t_title = ''Review budget'', t_description = Some ''Q3'',
             t_status = IN_PROGRESS, t_priority = LOW, t_dueDate = Some 99,
             t_createdAt = 20, t_userId = ''u1''\<rparr>"

definition task_c :: Task where
  "task_c = \<lparr>t_id = ''c'', t_title = ''Archive mail'', t_description = None,
             t_status = COMPLETED, t_priority = MEDIUM, t_dueDate = None,
             t_createdAt = 30, t_userId = ''u2''\<rparr>"

definition task_n :: Task where
  "task_n = \<lparr>t_id = ''n'', t_title = ''Plan trip'', t_description = None,
             t_status = PENDING, t_priority = MEDIUM, t_dueDate = None,
             t_createdAt = 40, t_userId = ''u1''\<rparr>"

definition world_ab :: World where
  "world_ab = \<lparr>table = [task_a, task_b], jobs = []\<rparr>"

definition world_c :: World where
  "world_c = \<lparr>table = [task_c], jobs = []\<rparr>"

definition world_ac :: World where
  "world_ac = \<lparr>table = [task_a, task_c], jobs = []\<rparr>"

definition world_ba :: World where
  "world_ba = \<lparr>table = [task_b, task_a], jobs = []\<rparr>"

definition env_ok :: Env where
  "env_ok = \<lparr>genId = ''n'', now = 40, dbFails = (\<lambda>c. None), queueFails = (\<lambda>k. None),
             timestampOf = (\<lambda>s. None), ilike = (\<lambda>t p. False)\<rparr>"

definition env_queue_down :: Env where
  "env_queue_down = env_ok\<lparr>queueFails := (\<lambda>k. if k = 1 then Some ''Connection is closed.'' else None)\<rparr>"

definition env_queue_refuses :: Env where
  "env_queue_refuses = env_ok\<lparr>queueFails := (\<lambda>k. Some ''Connection is closed.'')\<rparr>"

definition dto_new :: CreateTaskDto where
  "dto_new = \<lparr>c_title = ''Plan trip'', c_description = None, c_status = None,
              c_priority = MEDIUM, c_dueDate = None, c_userId = ''u1''\<rparr>"

definition dto_complete :: UpdateTaskDto where
  "dto_complete = \<lparr>u_title = None, u_description = None, u_status = Some COMPLETED,
                   u_priority = None, u_dueDate = None\<rparr>"

definition dto_retitle :: UpdateTaskDto where
  "dto_retitle = \<lparr>u_title = Some ''Write summary'', u_description = None, u_status = Some PENDING,
                  u_priority = None, u_dueDate = None\<rparr>"

definition no_filter :: TaskFilterDto where
  "no_filter = \<lparr>f_status = None, f_priority = None, f_search = None, f_fromDate = None,
                f_toDate = None, f_userId = None\<rparr>"

section \<open>Facts about the primitives\<close>

lemmas sample_defs =
  task_a_def task_b_def task_c_def task_n_def world_ab_def world_c_def world_ac_def world_ba_def
  env_ok_def env_queue_down_def env_queue_refuses_def dto_new_def dto_complete_def
  dto_retitle_def no_filter_def

lemmas service_defs =
  create_def update_def bulkUpdateStatus_def bulkDelete_def remove_def findOne_def findAll_def
  findAll_by_strings_def transaction_def save_new_def save_existing_def db_findOne_def
  queue_add_def skip_take_def page_of_ids_def MAX_BIGINT_def status_update_job_def Object_assign_def matches_def
  whereClause_def bad_date_def truthy_def NotFoundException_def Let_def

lemma transaction_Inr:
  "transaction env body w = (Inr res, w') \<Longrightarrow>
     \<exists>rows js. body (table w) (jobs w) = (Inr res, rows, js) \<and> w' = \<lparr>table = rows, jobs = js\<rparr>"
  by (auto simp: transaction_def split: option.splits prod.splits sum.splits)

lemma transaction_Inl:
  "transaction env body w = (Inl err, w') \<Longrightarrow> table w' = table w"
  by (auto simp: transaction_def split: option.splits prod.splits sum.splits)

lemma save_new_Inr:
  "save_new env dto rows = Inr (t, rows') \<Longrightarrow>
     rows' = rows @ [t] \<and> t_id t \<notin> set (map t_id rows)"
  by (auto simp: save_new_def Let_def split: option.splits if_splits)

lemma find_id: "find (\<lambda>r. t_id r = ident) rows = Some task \<Longrightarrow> t_id task = ident"
  by (auto simp: find_Some_iff)

lemma assign_id: "t_id (Object_assign task dto) = t_id task"
  by (simp add: Object_assign_def)

section \<open>create\<close>

lemma create_Inr:
  assumes ok: "create env dto w = (Inr t, w')"
  shows "table w' = table w @ [t] \<and> t_id t \<notin> set (map t_id (table w))
       \<and> jobs w' = jobs w @ [status_update_job (t_id t) (t_status t)]"
proof -
  from transaction_Inr[OF ok[unfolded create_def]]
  obtain rows js where
    body: "(case save_new env dto (table w) of
         Inl err \<Rightarrow> (Inl err, table w, jobs w)
       | Inr (savedTask, rows') \<Rightarrow>
           (case queue_add env 0 (status_update_job (t_id savedTask) (t_status savedTask)) (jobs w) of
              Inl err \<Rightarrow> (Inl err, rows', jobs w)
            | Inr js' \<Rightarrow> (Inr savedTask, rows', js'))) = (Inr t, rows, js)"
    and w': "w' = \<lparr>table = rows, jobs = js\<rparr>" by auto
  from body obtain sv: "save_new env dto (table w) = Inr (t, rows)"
    and q: "queue_add env 0 (status_update_job (t_id t) (t_status t)) (jobs w) = Inr js"
    by (auto split: sum.splits prod.splits)
  from q have js: "js = jobs w @ [status_update_job (t_id t) (t_status t)]"
    by (auto simp: queue_add_def split: option.splits)
  from save_new_Inr[OF sv] w' js show ?thesis by auto
qed

text \<open>
  Claim C1. A call of \<open>create\<close> that returns a task has added exactly that task, under
  an identifier that the table did not hold, as one new row, and the queue has accepted
  exactly one job \<^verbatim>\<open>task-status-update\<close> that carries the identifier and the status
  of the stored row. When the queue rejects the job, the call fails and the table (and
  the queue) are as before the call: no row of the attempt is left.
\<close>

theorem create_one_record_one_event:
  "(fst (create env dto w) = Inr t \<longrightarrow>
      table (snd (create env dto w)) = table w @ [t]
      \<and> t_id t \<notin> set (map t_id (table w))
      \<and> jobs (snd (create env dto w))
          = jobs w @ [\<lparr>j_name = ''task-status-update'', j_taskId = t_id t, j_status = t_status t\<rparr>])
   \<and> (queueFails env 0 \<noteq> None \<longrightarrow> (\<exists>err. create env dto w = (Inl err, w)))"
proof (rule conjI; rule impI)
  assume "fst (create env dto w) = Inr t"
  then have "create env dto w = (Inr t, snd (create env dto w))"
    by (metis prod.collapse)
  from create_Inr[OF this]
  show "table (snd (create env dto w)) = table w @ [t]
      \<and> t_id t \<notin> set (map t_id (table w))
      \<and> jobs (snd (create env dto w))
          = jobs w @ [\<lparr>j_name = ''task-status-update'', j_taskId = t_id t, j_status = t_status t\<rparr>]"
    by (simp add: status_update_job_def)
next
  assume "queueFails env 0 \<noteq> None"
  then show "\<exists>err. create env dto w = (Inl err, w)"
    by (auto simp: create_def transaction_def queue_add_def
        split: option.splits sum.splits prod.splits)
qed

theorem create_one_record_one_event_witness:
  "fst (create env_ok dto_new world_ac) = Inr task_n
   \<and> (table (snd (create env_ok dto_new world_ac)) = table world_ac @ [task_n]
      \<and> t_id task_n \<notin> set (map t_id (table world_ac))
      \<and> jobs (snd (create env_ok dto_new world_ac))
          = jobs world_ac @ [\<lparr>j_name = ''task-status-update'', j_taskId = t_id task_n,
                               j_status = t_status task_n\<rparr>])
   \<and> queueFails env_queue_refuses 0 \<noteq> None
   \<and> (\<exists>err. create env_queue_refuses dto_new world_ac = (Inl err, world_ac))"
proof -
  have h1: "fst (create env_ok dto_new world_ac) = Inr task_n"
    by (simp add: service_defs sample_defs)
  have h2: "queueFails env_queue_refuses 0 \<noteq> None"
    by (simp add: sample_defs)
  note c1 = create_one_record_one_event[of env_ok dto_new world_ac task_n,
      THEN conjunct1, THEN mp, OF h1]
  note c2 = create_one_record_one_event[of env_queue_refuses dto_new world_ac,
      THEN conjunct2, THEN mp, OF h2]
  from h1 c1 h2 c2 show ?thesis by blast
qed

section \<open>update\<close>

text \<open>\<open>update\<close> on an identifier that the table holds, step by step.\<close>

lemma update_found:
  assumes "find (\<lambda>r. t_id r = ident) (table w) = Some task"
  shows "update env ident dto w =
     transaction env (\<lambda>rows js.
       case dbFails env FindOne of Some msg \<Rightarrow> (Inl (Error msg), rows, js) | None \<Rightarrow>
       (case dbFails env Save of Some msg \<Rightarrow> (Inl (Error msg), rows, js) | None \<Rightarrow>
         (let new = Object_assign task dto;
              rows' = map (\<lambda>r. if t_id r = t_id new then new else r) rows in
          if t_status task \<noteq> t_status new
          then (case queueFails env 0 of
                  Some msg \<Rightarrow> (Inl (Error msg), rows', js)
                | None \<Rightarrow> (Inr new, rows', js @ [status_update_job (t_id new) (t_status new)]))
          else (Inr new, rows', js)))) w"
  using assms
  by (simp add: update_def transaction_def db_findOne_def save_existing_def queue_add_def Let_def
      split: option.splits)

lemma update_Inr:
  assumes "find (\<lambda>r. t_id r = ident) (table w) = Some task"
      and "update env ident dto w = (Inr t', w')"
  shows "t' = Object_assign task dto"
    and "table w' = map (\<lambda>r. if t_id r = ident then t' else r) (table w)"
    and "jobs w' = jobs w @ (if t_status task \<noteq> t_status t'
                             then [status_update_job ident (t_status t')] else [])"
  using assms(2) find_id[OF assms(1)] unfolding update_found[OF assms(1)]
  by (auto simp: transaction_def Let_def assign_id split: option.splits if_splits)

text \<open>
  Claim C2. When the task exists, the input changes its status and the queue rejects
  the job, \<open>update\<close> fails and leaves the table as it was before the call (every row
  with every field), and the queue too.
\<close>

theorem update_publish_failure_rolls_back:
  assumes "find (\<lambda>r. t_id r = ident) (table w) = Some task"
      and "t_status (Object_assign task dto) \<noteq> t_status task"
      and "queueFails env 0 = Some msg"
  shows "\<exists>err. update env ident dto w = (Inl err, w)"
  using assms(2,3) unfolding update_found[OF assms(1)]
  by (auto simp: transaction_def Let_def split: option.splits)

theorem update_publish_failure_rolls_back_witness:
  "find (\<lambda>r. t_id r = ''a'') (table world_ac) = Some task_a
   \<and> t_status (Object_assign task_a dto_complete) \<noteq> t_status task_a
   \<and> queueFails env_queue_refuses 0 = Some ''Connection is closed.''
   \<and> (\<exists>err. update env_queue_refuses ''a'' dto_complete world_ac = (Inl err, world_ac))"
proof -
  have h1: "find (\<lambda>r. t_id r = ''a'') (table world_ac) = Some task_a"
    by (simp add: sample_defs)
  have h2: "t_status (Object_assign task_a dto_complete) \<noteq> t_status task_a"
    by (simp add: Object_assign_def sample_defs)
  have h3: "queueFails env_queue_refuses 0 = Some ''Connection is closed.''"
    by (simp add: sample_defs)
  note c = update_publish_failure_rolls_back[OF h1 h2 h3]
  from h1 h2 h3 c show ?thesis by blast
qed

text \<open>
  Claim C3. For a task that exists: when the status after applying the input equals
  the status before, \<open>update\<close> adds no job to the queue, whatever else happens; when it
  differs, \<open>update\<close> adds at most one job, which carries the new status, and a call
  that returns the task has added exactly that one job.
\<close>

theorem update_publishes_iff_status_changes:
  assumes "find (\<lambda>r. t_id r = ident) (table w) = Some task"
  shows "(t_status (Object_assign task dto) = t_status task \<longrightarrow>
            jobs (snd (update env ident dto w)) = jobs w)
       \<and> (t_status (Object_assign task dto) \<noteq> t_status task \<longrightarrow>
            (jobs (snd (update env ident dto w)) = jobs w
             \<or> jobs (snd (update env ident dto w))
                 = jobs w @ [\<lparr>j_name = ''task-status-update'', j_taskId = ident,
                               j_status = t_status (Object_assign task dto)\<rparr>])
          \<and> ((\<exists>t. fst (update env ident dto w) = Inr t) \<longrightarrow>
              jobs (snd (update env ident dto w))
                 = jobs w @ [\<lparr>j_name = ''task-status-update'', j_taskId = ident,
                               j_status = t_status (Object_assign task dto)\<rparr>]))"
  using find_id[OF assms] unfolding update_found[OF assms]
  by (auto simp: transaction_def Let_def status_update_job_def assign_id split: option.splits)

theorem update_publishes_iff_status_changes_witness:
  "find (\<lambda>r. t_id r = ''a'') (table world_ac) = Some task_a
   \<and> t_status (Object_assign task_a dto_retitle) = t_status task_a
   \<and> jobs (snd (update env_ok ''a'' dto_retitle world_ac)) = jobs world_ac
   \<and> t_status (Object_assign task_a dto_complete) \<noteq> t_status task_a
   \<and> (\<exists>t. fst (update env_ok ''a'' dto_complete world_ac) = Inr t)
   \<and> jobs (snd (update env_ok ''a'' dto_complete world_ac))
       = jobs world_ac @ [\<lparr>j_name = ''task-status-update'', j_taskId = ''a'',
                            j_status = t_status (Object_assign task_a dto_complete)\<rparr>]"
proof -
  have h1: "find (\<lambda>r. t_id r = ''a'') (table world_ac) = Some task_a"
    by (simp add: sample_defs)
  have h2: "t_status (Object_assign task_a dto_retitle) = t_status task_a"
    by (simp add: Object_assign_def sample_defs)
  have h3: "t_status (Object_assign task_a dto_complete) \<noteq> t_status task_a"
    by (simp add: Object_assign_def sample_defs)
  have h4: "\<exists>t. fst (update env_ok ''a'' dto_complete world_ac) = Inr t"
    by (simp add: service_defs sample_defs)
  note c1 = update_publishes_iff_status_changes[OF h1, of dto_retitle env_ok,
      THEN conjunct1, THEN mp, OF h2]
  note c2 = update_publishes_iff_status_changes[OF h1, of dto_complete env_ok,
      THEN conjunct2, THEN mp, OF h3, THEN conjunct2, THEN mp, OF h4]
  from h1 h2 c1 h3 h4 c2 show ?thesis by blast
qed

text \<open>The first revision of \<open>update\<close> on an identifier that the table holds.\<close>

lemma assign_truthy_id: "t_id (assign_truthy task dto) = t_id task"
  by (simp add: assign_truthy_def)

lemma update_first_revision_found:
  assumes "find (\<lambda>r. t_id r = ident) (table w) = Some task"
  shows "update_first_revision env ident dto w =
     (case dbFails env FindOne of Some msg \<Rightarrow> (Inl (Error msg), w) | None \<Rightarrow>
      (case dbFails env Save of Some msg \<Rightarrow> (Inl (Error msg), w) | None \<Rightarrow>
        (let new = assign_truthy task dto;
             rows' = map (\<lambda>r. if t_id r = ident then new else r) (table w) in
         (Inr new,
          \<lparr>table = rows',
           jobs = jobs w @ (if t_status task \<noteq> t_status new \<and> queueFails env 0 = None
                            then [status_update_job ident (t_status new)] else [])\<rparr>))))"
  using assms find_id[OF assms]
  by (auto simp: update_first_revision_def findOne_def db_findOne_def save_existing_def
      queue_add_def Let_def assign_truthy_id split: option.splits)

text \<open>
  Claim C9. For a task that exists and a call of \<open>update\<close> that returns: the returned
  task keeps its identifier, its creation time and its owner; each of title,
  description, status, priority and due date that the input does not carry keeps the
  value it had, and each that the input carries has the value of the input; the table
  holds the returned task in place of the old row and every other row unchanged. The
  first revision of \<open>update\<close> does the same, except that it also keeps a title or a
  description for which the input carries the empty string.
\<close>

theorem update_partial_replace:
  assumes "find (\<lambda>r. t_id r = ident) (table w) = Some task"
  shows "(fst (update env ident dto w) = Inr t' \<longrightarrow>
         t_id t' = t_id task \<and> t_createdAt t' = t_createdAt task \<and> t_userId t' = t_userId task
       \<and> t_title t' = (case u_title dto of None \<Rightarrow> t_title task | Some v \<Rightarrow> v)
       \<and> t_description t'
           = (case u_description dto of None \<Rightarrow> t_description task | Some v \<Rightarrow> Some v)
       \<and> t_status t' = (case u_status dto of None \<Rightarrow> t_status task | Some v \<Rightarrow> v)
       \<and> t_priority t' = (case u_priority dto of None \<Rightarrow> t_priority task | Some v \<Rightarrow> v)
       \<and> t_dueDate t' = (case u_dueDate dto of None \<Rightarrow> t_dueDate task | Some v \<Rightarrow> Some v)
       \<and> table (snd (update env ident dto w))
           = map (\<lambda>r. if t_id r = ident then t' else r) (table w))
    \<and> (fst (update_first_revision env ident dto w) = Inr t'' \<longrightarrow>
         t_id t'' = t_id task \<and> t_createdAt t'' = t_createdAt task \<and> t_userId t'' = t_userId task
       \<and> t_title t'' = (case truthy (u_title dto) of None \<Rightarrow> t_title task | Some v \<Rightarrow> v)
       \<and> t_description t''
           = (case truthy (u_description dto) of None \<Rightarrow> t_description task | Some v \<Rightarrow> Some v)
       \<and> t_status t'' = (case u_status dto of None \<Rightarrow> t_status task | Some v \<Rightarrow> v)
       \<and> t_priority t'' = (case u_priority dto of None \<Rightarrow> t_priority task | Some v \<Rightarrow> v)
       \<and> t_dueDate t'' = (case u_dueDate dto of None \<Rightarrow> t_dueDate task | Some v \<Rightarrow> Some v)
       \<and> table (snd (update_first_revision env ident dto w))
           = map (\<lambda>r. if t_id r = ident then t'' else r) (table w))"
proof (rule conjI; rule impI)
  assume "fst (update env ident dto w) = Inr t'"
  then have u: "update env ident dto w = (Inr t', snd (update env ident dto w))"
    by (metis prod.collapse)
  from update_Inr(1,2)[OF assms u]
  show "t_id t' = t_id task \<and> t_createdAt t' = t_createdAt task \<and> t_userId t' = t_userId task
       \<and> t_title t' = (case u_title dto of None \<Rightarrow> t_title task | Some v \<Rightarrow> v)
       \<and> t_description t'
           = (case u_description dto of None \<Rightarrow> t_description task | Some v \<Rightarrow> Some v)
       \<and> t_status t' = (case u_status dto of None \<Rightarrow> t_status task | Some v \<Rightarrow> v)
       \<and> t_priority t' = (case u_priority dto of None \<Rightarrow> t_priority task | Some v \<Rightarrow> v)
       \<and> t_dueDate t' = (case u_dueDate dto of None \<Rightarrow> t_dueDate task | Some v \<Rightarrow> Some v)
       \<and> table (snd (update env ident dto w))
           = map (\<lambda>r. if t_id r = ident then t' else r) (table w)"
    by (simp add: Object_assign_def)
next
  assume "fst (update_first_revision env ident dto w) = Inr t''"
  then have "t'' = assign_truthy task dto
     \<and> table (snd (update_first_revision env ident dto w))
           = map (\<lambda>r. if t_id r = ident then t'' else r) (table w)"
    unfolding update_first_revision_found[OF assms]
    by (auto simp: Let_def split: option.splits)
  then show "t_id t'' = t_id task \<and> t_createdAt t'' = t_createdAt task \<and> t_userId t'' = t_userId task
       \<and> t_title t'' = (case truthy (u_title dto) of None \<Rightarrow> t_title task | Some v \<Rightarrow> v)
       \<and> t_description t''
           = (case truthy (u_description dto) of None \<Rightarrow> t_description task | Some v \<Rightarrow> Some v)
       \<and> t_status t'' = (case u_status dto of None \<Rightarrow> t_status task | Some v \<Rightarrow> v)
       \<and> t_priority t'' = (case u_priority dto of None \<Rightarrow> t_priority task | Some v \<Rightarrow> v)
       \<and> t_dueDate t'' = (case u_dueDate dto of None \<Rightarrow> t_dueDate task | Some v \<Rightarrow> Some v)
       \<and> table (snd (update_first_revision env ident dto w))
           = map (\<lambda>r. if t_id r = ident then t'' else r) (table w)"
    by (simp add: assign_truthy_def)
qed

theorem update_partial_replace_witness:
  "find (\<lambda>r. t_id r = ''a'') (table world_ac) = Some task_a
   \<and> fst (update env_ok ''a'' dto_retitle world_ac) = Inr (task_a\<lparr>t_title := ''Write summary''\<rparr>)
   \<and> t_id (task_a\<lparr>t_title := ''Write summary''\<rparr>) = t_id task_a
   \<and> t_createdAt (task_a\<lparr>t_title := ''Write summary''\<rparr>) = t_createdAt task_a
   \<and> t_priority (task_a\<lparr>t_title := ''Write summary''\<rparr>)
       = (case u_priority dto_retitle of None \<Rightarrow> t_priority task_a | Some v \<Rightarrow> v)
   \<and> table (snd (update env_ok ''a'' dto_retitle world_ac))
       = map (\<lambda>r. if t_id r = ''a'' then task_a\<lparr>t_title := ''Write summary''\<rparr> else r)
           (table world_ac)
   \<and> fst (update_first_revision env_ok ''a'' dto_retitle world_ac)
       = Inr (task_a\<lparr>t_title := ''Write summary''\<rparr>)
   \<and> table (snd (update_first_revision env_ok ''a'' dto_retitle world_ac))
       = map (\<lambda>r. if t_id r = ''a'' then task_a\<lparr>t_title := ''Write summary''\<rparr> else r)
           (table world_ac)"
proof -
  have h1: "find (\<lambda>r. t_id r = ''a'') (table world_ac) = Some task_a"
    by (simp add: sample_defs)
  have h2: "fst (update env_ok ''a'' dto_retitle world_ac)
              = Inr (task_a\<lparr>t_title := ''Write summary''\<rparr>)"
    by (simp add: service_defs sample_defs)
  have h3: "fst (update_first_revision env_ok ''a'' dto_retitle world_ac)
              = Inr (task_a\<lparr>t_title := ''Write summary''\<rparr>)"
    by (simp add: update_first_revision_def assign_truthy_def service_defs sample_defs)
  note c1 = update_partial_replace[OF h1, THEN conjunct1, THEN mp, OF h2]
  note c2 = update_partial_replace[OF h1, THEN conjunct2, THEN mp, OF h3]
  from h1 h2 c1 h3 c2 show ?thesis by blast
qed

section \<open>bulkUpdateStatus\<close>

lemma publish_all_Inr:
  "publish_all env k ts js = (Inr u, js') \<Longrightarrow>
     js' = js @ map (\<lambda>t. status_update_job (t_id t) (t_status t)) ts"
proof (induction ts arbitrary: k js)
  case Nil
  then show ?case by simp
next
  case (Cons t ts)
  from Cons.prems have
    "publish_all env (Suc k) ts (js @ [status_update_job (t_id t) (t_status t)]) = (Inr u, js')"
    by (simp add: queue_add_def split: option.splits)
  from Cons.IH[OF this] show ?case by simp
qed

lemma publish_all_accepted:
  "\<forall>i. queueFails env i = None \<Longrightarrow>
     publish_all env k ts js = (Inr (), js @ map (\<lambda>t. status_update_job (t_id t) (t_status t)) ts)"
  by (induction ts arbitrary: k js) (simp_all add: queue_add_def)

lemma publish_all_rejected:
  "i < length ts \<Longrightarrow> queueFails env (k + i) = Some msg \<Longrightarrow>
     \<exists>err js'. publish_all env k ts js = (Inl err, js')"
proof (induction ts arbitrary: k js i)
  case Nil
  then show ?case by simp
next
  case (Cons t ts)
  show ?case
  proof (cases "queueFails env k")
    case None
    with Cons.prems obtain j where i: "i = Suc j" by (cases i) auto
    with Cons.prems have "j < length ts" "queueFails env (Suc k + j) = Some msg" by auto
    from Cons.IH[OF this] None show ?thesis by (simp add: queue_add_def)
  next
    case (Some m)
    then show ?thesis by (simp add: queue_add_def)
  qed
qed

lemma filter_ids_updated:
  "filter (\<lambda>r. t_id r \<in> set ids)
     (map (\<lambda>r. if t_id r \<in> set ids then r\<lparr>t_status := status\<rparr> else r) rows)
     = map (\<lambda>r. r\<lparr>t_status := status\<rparr>) (filter (\<lambda>r. t_id r \<in> set ids) rows)"
  by (induction rows) auto

lemma bulkUpdateStatus_Inr:
  assumes "bulkUpdateStatus env ids status w = (Inr updatedTasks, w')"
  shows "table w' = map (\<lambda>r. if t_id r \<in> set ids then r\<lparr>t_status := status\<rparr> else r) (table w)
       \<and> updatedTasks = filter (\<lambda>r. t_id r \<in> set ids) (table w')
       \<and> jobs w' = jobs w @ map (\<lambda>r. status_update_job (t_id r) status)
                              (filter (\<lambda>r. t_id r \<in> set ids) (table w))"
proof -
  let ?rows' = "map (\<lambda>r. if t_id r \<in> set ids then r\<lparr>t_status := status\<rparr> else r) (table w)"
  let ?found = "filter (\<lambda>r. t_id r \<in> set ids) ?rows'"
  from transaction_Inr[OF assms[unfolded bulkUpdateStatus_def]]
  obtain js u where p: "publish_all env 0 ?found (jobs w) = (Inr u, js)"
    and w': "w' = \<lparr>table = ?rows', jobs = js\<rparr>" and ts: "updatedTasks = ?found"
    by (auto simp: Let_def split: option.splits sum.splits prod.splits)
  from publish_all_Inr[OF p]
  have "js = jobs w @ map (\<lambda>r. status_update_job (t_id r) status)
                        (filter (\<lambda>r. t_id r \<in> set ids) (table w))"
    by (simp add: filter_ids_updated o_def)
  with w' ts show ?thesis by simp
qed

text \<open>
  Claim C4. When the queue rejects the job of any one of the tasks that
  \<open>bulkUpdateStatus\<close> has found (the \<open>k\<close>-th, counted from 0), the call fails and the
  table is as before the call: no row has a new status.
\<close>

theorem bulkUpdateStatus_all_or_nothing:
  assumes "k < length (filter (\<lambda>r. t_id r \<in> set ids) (table w))"
      and "queueFails env k = Some msg"
  shows "\<exists>err w'. bulkUpdateStatus env ids status w = (Inl err, w') \<and> table w' = table w"
proof -
  let ?found = "map (\<lambda>r. r\<lparr>t_status := status\<rparr>) (filter (\<lambda>r. t_id r \<in> set ids) (table w))"
  from assms have "k < length ?found" "queueFails env (0 + k) = Some msg" by simp_all
  from publish_all_rejected[OF this] obtain err js' where
    "publish_all env 0 ?found (jobs w) = (Inl err, js')" by blast
  then show ?thesis
    by (auto simp: bulkUpdateStatus_def transaction_def Let_def filter_ids_updated
        split: option.splits)
qed

theorem bulkUpdateStatus_all_or_nothing_witness:
  "1 < length (filter (\<lambda>r. t_id r \<in> set [''a'', ''b'', ''c'']) (table world_ac))
   \<and> queueFails env_queue_down 1 = Some ''Connection is closed.''
   \<and> (\<exists>err w'. bulkUpdateStatus env_queue_down [''a'', ''b'', ''c''] COMPLETED world_ac = (Inl err, w')
         \<and> table w' = table world_ac)"
proof -
  have h1: "1 < length (filter (\<lambda>r. t_id r \<in> set [''a'', ''b'', ''c'']) (table world_ac))"
    by (simp add: sample_defs)
  have h2: "queueFails env_queue_down 1 = Some ''Connection is closed.''"
    by (simp add: sample_defs)
  note c = bulkUpdateStatus_all_or_nothing[OF h1 h2, of COMPLETED]
  from h1 h2 c show ?thesis by blast
qed

text \<open>
  Claim C5. A call of \<open>bulkUpdateStatus\<close> that returns has set the status on exactly
  the rows whose identifier is in the list and left every other row as it was; it
  returns those rows; and the queue has accepted one job with the new status for each
  of those rows, in table order, whatever the status of the row was before.
  Identifiers without a row change nothing and get no job, and they raise no error:
  when no collaborator rejects a call, the call returns for every list of identifiers.
\<close>

theorem bulkUpdateStatus_existing_ids:
  "(fst (bulkUpdateStatus env ids status w) = Inr updatedTasks \<longrightarrow>
      table (snd (bulkUpdateStatus env ids status w))
        = map (\<lambda>r. if t_id r \<in> set ids then r\<lparr>t_status := status\<rparr> else r) (table w)
      \<and> updatedTasks
        = filter (\<lambda>r. t_id r \<in> set ids) (table (snd (bulkUpdateStatus env ids status w)))
      \<and> jobs (snd (bulkUpdateStatus env ids status w))
        = jobs w @ map (\<lambda>r. \<lparr>j_name = ''task-status-update'', j_taskId = t_id r, j_status = status\<rparr>)
                     (filter (\<lambda>r. t_id r \<in> set ids) (table w)))
   \<and> ((\<forall>c. dbFails env c = None) \<and> (\<forall>i. queueFails env i = None) \<longrightarrow>
        (\<exists>ts. fst (bulkUpdateStatus env ids status w) = Inr ts))"
proof (rule conjI; rule impI)
  assume "fst (bulkUpdateStatus env ids status w) = Inr updatedTasks"
  then have "bulkUpdateStatus env ids status w
               = (Inr updatedTasks, snd (bulkUpdateStatus env ids status w))"
    by (metis prod.collapse)
  from bulkUpdateStatus_Inr[OF this]
  show "table (snd (bulkUpdateStatus env ids status w))
        = map (\<lambda>r. if t_id r \<in> set ids then r\<lparr>t_status := status\<rparr> else r) (table w)
      \<and> updatedTasks
        = filter (\<lambda>r. t_id r \<in> set ids) (table (snd (bulkUpdateStatus env ids status w)))
      \<and> jobs (snd (bulkUpdateStatus env ids status w))
        = jobs w @ map (\<lambda>r. \<lparr>j_name = ''task-status-update'', j_taskId = t_id r, j_status = status\<rparr>)
                     (filter (\<lambda>r. t_id r \<in> set ids) (table w))"
    by (simp add: status_update_job_def)
next
  assume a: "(\<forall>c. dbFails env c = None) \<and> (\<forall>i. queueFails env i = None)"
  then have q: "\<forall>i. queueFails env i = None" by simp
  from a show "\<exists>ts. fst (bulkUpdateStatus env ids status w) = Inr ts"
    by (simp add: bulkUpdateStatus_def transaction_def Let_def publish_all_accepted[OF q])
qed

theorem bulkUpdateStatus_existing_ids_witness:
  "fst (bulkUpdateStatus env_ok [''a'', ''b'', ''c''] COMPLETED world_ac)
     = Inr [task_a\<lparr>t_status := COMPLETED\<rparr>, task_c]
   \<and> (table (snd (bulkUpdateStatus env_ok [''a'', ''b'', ''c''] COMPLETED world_ac))
        = map (\<lambda>r. if t_id r \<in> set [''a'', ''b'', ''c''] then r\<lparr>t_status := COMPLETED\<rparr> else r)
            (table world_ac)
      \<and> [task_a\<lparr>t_status := COMPLETED\<rparr>, task_c]
        = filter (\<lambda>r. t_id r \<in> set [''a'', ''b'', ''c''])
            (table (snd (bulkUpdateStatus env_ok [''a'', ''b'', ''c''] COMPLETED world_ac)))
      \<and> jobs (snd (bulkUpdateStatus env_ok [''a'', ''b'', ''c''] COMPLETED world_ac))
        = jobs world_ac
          @ map (\<lambda>r. \<lparr>j_name = ''task-status-update'', j_taskId = t_id r, j_status = COMPLETED\<rparr>)
              (filter (\<lambda>r. t_id r \<in> set [''a'', ''b'', ''c'']) (table world_ac)))
   \<and> ((\<forall>c. dbFails env_ok c = None) \<and> (\<forall>i. queueFails env_ok i = None))
   \<and> (\<exists>ts. fst (bulkUpdateStatus env_ok [''a'', ''b'', ''c''] COMPLETED world_ac) = Inr ts)"
proof -
  have h1: "fst (bulkUpdateStatus env_ok [''a'', ''b'', ''c''] COMPLETED world_ac)
              = Inr [task_a\<lparr>t_status := COMPLETED\<rparr>, task_c]"
    by (simp add: service_defs sample_defs)
  have h2: "(\<forall>c. dbFails env_ok c = None) \<and> (\<forall>i. queueFails env_ok i = None)"
    by (simp add: sample_defs)
  note c1 = bulkUpdateStatus_existing_ids[of env_ok "[''a'', ''b'', ''c'']" COMPLETED world_ac
      "[task_a\<lparr>t_status := COMPLETED\<rparr>, task_c]", THEN conjunct1, THEN mp, OF h1]
  note c2 = bulkUpdateStatus_existing_ids[of env_ok "[''a'', ''b'', ''c'']" COMPLETED world_ac,
      THEN conjunct2, THEN mp, OF h2]
  from h1 c1 h2 c2 show ?thesis by blast
qed

section \<open>findAll\<close>







lemma keys_before_cut:
  assumes "sorted ids" and "distinct ids" and "x \<in> set (take m ids)" and "y \<in> set (drop m ids)"
  shows "x < y"
proof -
  have s: "sorted (take m ids @ drop m ids)" and d: "distinct (take m ids @ drop m ids)"
    using assms(1,2) by simp_all
  from s assms(3,4) have "x \<le> y" unfolding sorted_append by blast
  moreover from d assms(3,4) have "x \<noteq> y" unfolding distinct_append by blast
  ultimately show ?thesis by simp
qed

text \<open>The keys of an earlier page are smaller than the keys of a later page.\<close>

lemma pages_cut_by_key:
  assumes "p < q"
      and "x \<in> set (take n (drop (p * n) (sort (remdups ids))))"
      and "y \<in> set (take n (drop (q * n) (sort (remdups ids))))"
  shows "x < (y :: string)"
proof -
  let ?ids = "sort (remdups ids)"
  have "Suc p * n = p * n + n" by simp
  then have "take (Suc p * n) ?ids = take (p * n) ?ids @ take n (drop (p * n) ?ids)"
    by (simp only: take_add)
  with assms(2) have x: "x \<in> set (take (Suc p * n) ?ids)" by simp
  from assms(1) have "Suc p \<le> q" by simp
  then have "Suc p * n \<le> q * n" by (rule mult_le_mono1)
  then have "set (drop (q * n) ?ids) \<subseteq> set (drop (Suc p * n) ?ids)"
    by (rule set_drop_subset_set_drop)
  with assms(3) set_take_subset[of n "drop (q * n) ?ids"]
  have y: "y \<in> set (drop (Suc p * n) ?ids)" by blast
  show ?thesis by (rule keys_before_cut[OF _ _ x y]) simp_all
qed




text \<open>
  On the same table the pages of size 1 are cut by identifier, and a page size of 0
  returns every matching row on every page.
\<close>

lemma findAll_pages_of_one:
  "findAll env_ok ''u1'' 1 1 no_filter world_ba = Inr [task_a]
   \<and> findAll env_ok ''u1'' 2 1 no_filter world_ba = Inr [task_b]
   \<and> findAll_by_strings env_ok ''u1'' 1 1 '''' '''' world_ba = Inr [task_a]"
  by (simp add: service_defs sample_defs)

lemma findAll_page_size_zero:
  "findAll env_ok ''u1'' 1 0 no_filter world_ba = Inr [task_b, task_a]
   \<and> findAll env_ok ''u1'' 2 0 no_filter world_ba = Inr [task_b, task_a]"
  by (simp add: service_defs sample_defs)

section \<open>TasksController\<close>

lemma bulkDelete_Inr:
  "bulkDelete env ids w = (Inr u, w') \<Longrightarrow>
     table w' = filter (\<lambda>r. t_id r \<notin> set ids) (table w) \<and> jobs w' = jobs w"
  by (auto dest!: transaction_Inr simp: bulkDelete_def split: option.splits)

text \<open>
  Claim C7. The controller does not await \<open>findOne\<close>, and \<open>remove\<close> deletes by
  identifier without looking the task up: both the first and the second deletion of
  task \<open>a\<close> are answered with the confirmation and the status 200.
\<close>

theorem remove_twice_confirms_twice:
  "TasksController_remove env_ok ''a'' world_ac
     = (Inr \<lparr>k_statusCode = 200, k_message = ''Task successfully deleted''\<rparr>, world_c)
   \<and> TasksController_remove env_ok ''a'' world_c
     = (Inr \<lparr>k_statusCode = 200, k_message = ''Task successfully deleted''\<rparr>, world_c)"
  by (simp add: TasksController_remove_def remove_def OK_def sample_defs)

text \<open>Whatever the table holds, the controller answers 200 when the DELETE is accepted.\<close>

lemma remove_never_not_found:
  "dbFails env Delete = None \<Longrightarrow>
   TasksController_remove env ident w =
     (Inr \<lparr>k_statusCode = 200, k_message = ''Task successfully deleted''\<rparr>,
      w\<lparr>table := filter (\<lambda>r. t_id r \<noteq> ident) (table w)\<rparr>)"
  by (simp add: TasksController_remove_def remove_def OK_def)

text \<open>
  Claim C8. The exception with status 400 that the \<^verbatim>\<open>default\<close> branch throws is
  caught by the \<^verbatim>\<open>catch\<close> of the same method: the request with the action
  \<open>archive\<close> is answered with the status 500 and the message that names the action;
  table and queue are untouched.
\<close>

theorem batchProcess_unknown_action_is_500:
  "TasksController_batchProcess env_ok \<lparr>b_tasks = [''a''], b_action = ''archive''\<rparr> world_ac
     = (Inl (HttpException ''Unknown action: archive'' 500), world_ac)"
  by (simp add: TasksController_batchProcess_def batch_switch_def BAD_REQUEST_def
      INTERNAL_SERVER_ERROR_def)

text \<open>The same for every action other than the two known ones, whatever the environment.\<close>

lemma batchProcess_unknown_action:
  "act \<noteq> ''complete'' \<Longrightarrow> act \<noteq> ''delete'' \<Longrightarrow>
   TasksController_batchProcess env \<lparr>b_tasks = ids, b_action = act\<rparr> w
     = (Inl (HttpException (''Unknown action: '' @ act) 500), w)"
  by (simp add: TasksController_batchProcess_def batch_switch_def INTERNAL_SERVER_ERROR_def)

text \<open>
  Claim C10. A batch request with the action \<open>delete\<close> that is answered reports 0
  affected tasks, while the rows with the listed identifiers are gone from the table
  (the queue is untouched). A request with the action \<open>complete\<close> that is answered
  reports the number of rows with a listed identifier, and these are the rows that the
  call has set to COMPLETED in the table, with one job each in the queue. Both answers
  carry \<open>success\<close> and the list of identifiers of the request.
\<close>

theorem batchProcess_delete_affected_zero:
  "(fst (TasksController_batchProcess env \<lparr>b_tasks = ids, b_action = ''delete''\<rparr> w) = Inr resp
      \<longrightarrow> r_affected resp = 0 \<and> r_success resp \<and> r_taskIds resp = ids
          \<and> table (snd (TasksController_batchProcess env \<lparr>b_tasks = ids, b_action = ''delete''\<rparr> w))
              = filter (\<lambda>r. t_id r \<notin> set ids) (table w)
          \<and> jobs (snd (TasksController_batchProcess env \<lparr>b_tasks = ids, b_action = ''delete''\<rparr> w))
              = jobs w)
   \<and> (fst (TasksController_batchProcess env \<lparr>b_tasks = ids, b_action = ''complete''\<rparr> w) = Inr resp'
      \<longrightarrow> r_affected resp' = length (filter (\<lambda>r. t_id r \<in> set ids) (table w))
          \<and> r_success resp' \<and> r_taskIds resp' = ids
          \<and> table (snd (TasksController_batchProcess env \<lparr>b_tasks = ids, b_action = ''complete''\<rparr> w))
              = map (\<lambda>r. if t_id r \<in> set ids then r\<lparr>t_status := COMPLETED\<rparr> else r) (table w)
          \<and> jobs (snd (TasksController_batchProcess env \<lparr>b_tasks = ids, b_action = ''complete''\<rparr> w))
              = jobs w @ map (\<lambda>r. \<lparr>j_name = ''task-status-update'', j_taskId = t_id r,
                                     j_status = COMPLETED\<rparr>)
                           (filter (\<lambda>r. t_id r \<in> set ids) (table w)))"
proof (rule conjI; rule impI)
  let ?B = "TasksController_batchProcess env \<lparr>b_tasks = ids, b_action = ''delete''\<rparr> w"
  assume "fst ?B = Inr resp"
  then have "?B = (Inr resp, snd ?B)" by (metis prod.collapse)
  then obtain u where d: "bulkDelete env ids w = (Inr u, snd ?B)"
    and r: "resp = \<lparr>r_success = True, r_affected = 0, r_taskIds = ids\<rparr>"
    by (auto simp: TasksController_batchProcess_def batch_switch_def
        split: prod.splits sum.splits)
  from bulkDelete_Inr[OF d] r
  show "r_affected resp = 0 \<and> r_success resp \<and> r_taskIds resp = ids
      \<and> table (snd ?B) = filter (\<lambda>r. t_id r \<notin> set ids) (table w)
      \<and> jobs (snd ?B) = jobs w"
    by simp
next
  let ?B = "TasksController_batchProcess env \<lparr>b_tasks = ids, b_action = ''complete''\<rparr> w"
  assume "fst ?B = Inr resp'"
  then have "?B = (Inr resp', snd ?B)" by (metis prod.collapse)
  then obtain ts where d: "bulkUpdateStatus env ids COMPLETED w = (Inr ts, snd ?B)"
    and r: "resp' = \<lparr>r_success = True, r_affected = length ts, r_taskIds = ids\<rparr>"
    by (auto simp: TasksController_batchProcess_def batch_switch_def
        split: prod.splits sum.splits)
  from bulkUpdateStatus_Inr[OF d] r
  show "r_affected resp' = length (filter (\<lambda>r. t_id r \<in> set ids) (table w))
      \<and> r_success resp' \<and> r_taskIds resp' = ids
      \<and> table (snd ?B)
          = map (\<lambda>r. if t_id r \<in> set ids then r\<lparr>t_status := COMPLETED\<rparr> else r) (table w)
      \<and> jobs (snd ?B)
          = jobs w @ map (\<lambda>r. \<lparr>j_name = ''task-status-update'', j_taskId = t_id r,
                                 j_status = COMPLETED\<rparr>)
                       (filter (\<lambda>r. t_id r \<in> set ids) (table w))"
    by (simp add: filter_ids_updated status_update_job_def)
qed

theorem batchProcess_delete_affected_zero_witness:
  "fst (TasksController_batchProcess env_ok \<lparr>b_tasks = [''a'', ''c''], b_action = ''delete''\<rparr> world_ac)
     = Inr \<lparr>r_success = True, r_affected = 0, r_taskIds = [''a'', ''c'']\<rparr>
   \<and> (r_affected \<lparr>r_success = True, r_affected = 0, r_taskIds = [''a'', ''c'']\<rparr> = 0
      \<and> r_success \<lparr>r_success = True, r_affected = 0, r_taskIds = [''a'', ''c'']\<rparr>
      \<and> r_taskIds \<lparr>r_success = True, r_affected = 0, r_taskIds = [''a'', ''c'']\<rparr> = [''a'', ''c'']
      \<and> table (snd (TasksController_batchProcess env_ok
                      \<lparr>b_tasks = [''a'', ''c''], b_action = ''delete''\<rparr> world_ac))
          = filter (\<lambda>r. t_id r \<notin> set [''a'', ''c'']) (table world_ac)
      \<and> jobs (snd (TasksController_batchProcess env_ok
                      \<lparr>b_tasks = [''a'', ''c''], b_action = ''delete''\<rparr> world_ac))
          = jobs world_ac)
   \<and> filter (\<lambda>r. t_id r \<notin> set [''a'', ''c'']) (table world_ac) = []
   \<and> fst (TasksController_batchProcess env_ok \<lparr>b_tasks = [''a'', ''c''], b_action = ''complete''\<rparr> world_ac)
     = Inr \<lparr>r_success = True, r_affected = 2, r_taskIds = [''a'', ''c'']\<rparr>
   \<and> (r_affected \<lparr>r_success = True, r_affected = 2, r_taskIds = [''a'', ''c'']\<rparr>
        = length (filter (\<lambda>r. t_id r \<in> set [''a'', ''c'']) (table world_ac))
      \<and> r_success \<lparr>r_success = True, r_affected = 2, r_taskIds = [''a'', ''c'']\<rparr>
      \<and> r_taskIds \<lparr>r_success = True, r_affected = 2, r_taskIds = [''a'', ''c'']\<rparr> = [''a'', ''c'']
      \<and> table (snd (TasksController_batchProcess env_ok
                      \<lparr>b_tasks = [''a'', ''c''], b_action = ''complete''\<rparr> world_ac))
          = map (\<lambda>r. if t_id r \<in> set [''a'', ''c''] then r\<lparr>t_status := COMPLETED\<rparr> else r)
              (table world_ac)
      \<and> jobs (snd (TasksController_batchProcess env_ok
                      \<lparr>b_tasks = [''a'', ''c''], b_action = ''complete''\<rparr> world_ac))
          = jobs world_ac @ map (\<lambda>r. \<lparr>j_name = ''task-status-update'', j_taskId = t_id r,
                                        j_status = COMPLETED\<rparr>)
                              (filter (\<lambda>r. t_id r \<in> set [''a'', ''c'']) (table world_ac)))"
proof -
  have h1: "fst (TasksController_batchProcess env_ok
                   \<lparr>b_tasks = [''a'', ''c''], b_action = ''delete''\<rparr> world_ac)
     = Inr \<lparr>r_success = True, r_affected = 0, r_taskIds = [''a'', ''c'']\<rparr>"
    by (simp add: TasksController_batchProcess_def batch_switch_def service_defs sample_defs)
  have h2: "fst (TasksController_batchProcess env_ok
                   \<lparr>b_tasks = [''a'', ''c''], b_action = ''complete''\<rparr> world_ac)
     = Inr \<lparr>r_success = True, r_affected = 2, r_taskIds = [''a'', ''c'']\<rparr>"
    by (simp add: TasksController_batchProcess_def batch_switch_def service_defs sample_defs)
  have e: "filter (\<lambda>r. t_id r \<notin> set [''a'', ''c'']) (table world_ac) = []"
    by (simp add: sample_defs)
  note c1 = batchProcess_delete_affected_zero[of env_ok "[''a'', ''c'']" world_ac
      "\<lparr>r_success = True, r_affected = 0, r_taskIds = [''a'', ''c'']\<rparr>",
      THEN conjunct1, THEN mp, OF h1]
  note c2 = batchProcess_delete_affected_zero[of env_ok "[''a'', ''c'']" world_ac _
      "\<lparr>r_success = True, r_affected = 2, r_taskIds = [''a'', ''c'']\<rparr>",
      THEN conjunct2, THEN mp, OF h2]
  from h1 c1 e h2 c2 show ?thesis by blast
qed

section \<open>The first revision\<close>

text \<open>
  The first revision of \<open>update\<close> writes outside any transaction and does not await the
  queue: with the queue refusing every job, task \<open>a\<close> is stored as COMPLETED and returned,
  and no job exists. Its \<open>remove\<close> reports a missing task.
\<close>

lemma update_first_revision_keeps_the_write:
  "update_first_revision env_queue_refuses ''a'' dto_complete world_ac
     = (Inr (task_a\<lparr>t_status := COMPLETED\<rparr>),
        \<lparr>table = [task_a\<lparr>t_status := COMPLETED\<rparr>, task_c], jobs = []\<rparr>)"
  by (simp add: update_first_revision_def assign_truthy_def service_defs sample_defs)

lemma remove_first_revision_not_found:
  "dbFails env FindOne = None \<Longrightarrow> find (\<lambda>r. t_id r = ident) (table w) = None \<Longrightarrow>
   remove_first_revision env ident w = (Inl (HttpException ''Task not found'' 404), w)"
  by (simp add: remove_first_revision_def findOne_def db_findOne_def NotFoundException_def)

end
